theory Spec2Isabelle
  imports Main "HOL-Library.Multiset"
begin

section \<open>Values exchanged with the HTTP layer\<close>

text \<open>
  Request and response bodies are JSON documents. An object is the association list of
  its members; a member is looked up with \<open>map_of\<close>. Python's \<open>None\<close> is \<open>JNull\<close>.
  Numbers are the integers (truthiness and equality are all the handlers use of them).
\<close>

datatype json =
    JNull
  | JBool bool
  | JNum int
  | JStr string
  | JArr "json list"
  | JObj "(string \<times> json) list"

text \<open>Python truthiness, as tested by \<open>if not data\<close> and \<open>if not name\<close>.\<close>

fun truthy :: "json \<Rightarrow> bool" where
  "truthy JNull = False"
| "truthy (JBool b) = b"
| "truthy (JNum n) = (n \<noteq> 0)"
| "truthy (JStr s) = (s \<noteq> [])"
| "truthy (JArr xs) = (xs \<noteq> [])"
| "truthy (JObj kvs) = (kvs \<noteq> [])"

text \<open>
  Every exception of the program is an instance of Python's \<open>Exception\<close>; the class
  matters in one place only (\<open>except OperationalError\<close> in \<open>get_db_connection\<close>), and
  the message is what \<open>str(e)\<close> puts into a response.
\<close>

datatype exn_class =
    PlainException
  | OperationalError
  | DatabaseError
  | BadRequest
  | UnsupportedMediaType
  | AttributeError

type_synonym exn = "exn_class \<times> string"

definition str_exn :: "exn \<Rightarrow> string" where
  "str_exn e = snd e"

text \<open>A response is the JSON body together with the HTTP status.\<close>

type_synonym response = "json \<times> nat"

definition jsonify :: "json \<Rightarrow> response" where
  "jsonify body = (body, 200)"

definition error_response :: "string \<Rightarrow> nat \<Rightarrow> response" where
  "error_response msg code = (JObj [(''error'', JStr msg)], code)"

text \<open>
  A request carries whether its content type announces JSON and what its body parses
  to: \<open>None\<close> when the body is empty or is not a JSON document.
\<close>

record request =
  is_json :: bool
  payload :: "json option"

section \<open>The world outside the process\<close>

text \<open>
  One row of the table \<open>items(id serial primary key, name varchar(255) not null,
  description text)\<close>.
\<close>

record row =
  row_id :: int
  row_name :: string
  row_description :: "string option"

text \<open>What one call of \<open>psycopg2.connect\<close> does.\<close>

datatype connect_result =
    Connected
  | Refused string
  | Broken exn

text \<open>
  The part of the world that a run does not change: the host name, the behaviour of the
  installed Flask on a content type that is not JSON (\<open>True\<close>: \<open>get_json\<close> returns
  \<open>None\<close>, as before Flask 2.1; \<open>False\<close>: it raises 415), the outcome of the n-th
  connection attempt made by the process (\<open>Refused\<close> is an \<open>OperationalError\<close>, \<open>Broken\<close>
  any other exception), and how driver and server turn a query parameter that is neither
  a string nor \<open>None\<close> into text (\<open>None\<close>: an error is raised).
\<close>

record env =
  hostname :: string
  legacy_json :: bool
  connect_outcome :: "nat \<Rightarrow> connect_result"
  adapt_other :: "json \<Rightarrow> string option"

text \<open>The observable effects, in the order they happen.\<close>

datatype event =
    Connect
  | Sleep nat
  | Execute string "json list"
  | Commit
  | Close nat

text \<open>
  The part that changes: the number of connection attempts made so far, the connections
  that are open (a connection is named by the number of the attempt that opened it), the
  effects so far, the table (\<open>None\<close> when the relation does not exist) and the last value
  of its id sequence.
\<close>

record state =
  attempts :: nat
  open_conns :: "nat set"
  trace :: "event list"
  items :: "row list option"
  items_seq :: int

section \<open>Connection provider\<close>

definition exhausted :: exn where
  "exhausted = (PlainException, ''Failed to connect to database after 5 attempts'')"

text \<open>
  The loop of \<open>get_db_connection\<close>: \<open>retries\<close> counts the failed attempts; an
  \<open>OperationalError\<close> is counted and followed by a sleep of 3 seconds, any other exception
  leaves the function at once.
\<close>

function get_db_connection_loop ::
    "env \<Rightarrow> nat \<Rightarrow> nat \<Rightarrow> state \<Rightarrow> (exn + nat) \<times> state" where
  "get_db_connection_loop e max_retries retries s =
     (if retries < max_retries then
        (let s1 = s\<lparr>attempts := Suc (attempts s), trace := trace s @ [Connect]\<rparr> in
         case connect_outcome e (attempts s) of
           Connected \<Rightarrow>
             (Inr (attempts s), s1\<lparr>open_conns := insert (attempts s) (open_conns s1)\<rparr>)
         | Refused msg \<Rightarrow>
             get_db_connection_loop e max_retries (Suc retries)
               (s1\<lparr>trace := trace s1 @ [Sleep 3]\<rparr>)
         | Broken x \<Rightarrow> (Inl x, s1))
      else (Inl exhausted, s))"
  by pat_completeness auto
termination
  by (relation "measure (\<lambda>(e, max_retries, retries, s). max_retries - retries)") auto

declare get_db_connection_loop.simps [simp del]

definition get_db_connection :: "env \<Rightarrow> state \<Rightarrow> (exn + nat) \<times> state" where
  "get_db_connection e s = get_db_connection_loop e 5 0 s"

section \<open>The database behind a connection\<close>

text \<open>
  The PostgreSQL server is not part of the program. It is modelled for exactly the
  statements the program sends, recognised by their text (the two \<open>CREATE TABLE\<close>
  statements with their white space folded). A statement that fails changes nothing but,
  for a duplicate key, the sequence. Each handler commits right after its statements, so
  a statement acts on the table directly.
\<close>

definition undefined_table :: exn where
  "undefined_table = (DatabaseError, ''relation items does not exist'')"

definition data_error :: exn where
  "data_error = (DatabaseError, ''invalid parameter'')"

definition unique_violation :: exn where
  "unique_violation = (DatabaseError, ''duplicate key value violates unique constraint items_pkey'')"

definition sequence_exhausted :: exn where
  "sequence_exhausted = (DatabaseError, ''nextval: reached maximum value of sequence items_id_seq'')"

definition syntax_error :: exn where
  "syntax_error = (DatabaseError, ''syntax error'')"

text \<open>
  A parameter bound to a text column: \<open>None\<close> when driver or server raise,
  \<open>Some None\<close> for SQL \<open>NULL\<close>. The driver refuses a string that holds a NUL character.
\<close>

fun text_param :: "env \<Rightarrow> json \<Rightarrow> string option option" where
  "text_param e JNull = Some None"
| "text_param e (JStr t) = (if CHR 0x00 \<in> set t then None else Some (Some t))"
| "text_param e v = map_option Some (adapt_other e v)"

text \<open>
  Assignment to \<open>varchar(255)\<close>: a longer text is an error unless all the excess
  characters are spaces, which are cut off.
\<close>

definition varchar255 :: "string \<Rightarrow> string option" where
  "varchar255 t =
     (if length t \<le> 255 then Some t
      else if filter (\<lambda>c. c \<noteq> CHR '' '') (drop 255 t) = [] then Some (take 255 t)
      else None)"

text \<open>The column \<open>name varchar(255) not null\<close>.\<close>

definition name_param :: "env \<Rightarrow> json \<Rightarrow> string option" where
  "name_param e v =
     (case text_param e v of
        None \<Rightarrow> None
      | Some None \<Rightarrow> None
      | Some (Some t) \<Rightarrow> varchar255 t)"

definition set_name :: "env \<Rightarrow> json \<Rightarrow> (row \<Rightarrow> row) option" where
  "set_name e v = map_option (\<lambda>n r. r\<lparr>row_name := n\<rparr>) (name_param e v)"

definition set_description :: "env \<Rightarrow> json \<Rightarrow> (row \<Rightarrow> row) option" where
  "set_description e v = map_option (\<lambda>d r. r\<lparr>row_description := d\<rparr>) (text_param e v)"

definition pg_select_all :: "state \<Rightarrow> (exn + row list) \<times> state" where
  "pg_select_all s =
     (case items s of
        None \<Rightarrow> (Inl undefined_table, s)
      | Some rs \<Rightarrow> (Inr (sort_key row_id rs), s))"

definition pg_select_by_id :: "json \<Rightarrow> state \<Rightarrow> (exn + row list) \<times> state" where
  "pg_select_by_id i s =
     (case items s of
        None \<Rightarrow> (Inl undefined_table, s)
      | Some rs \<Rightarrow>
          (case i of
             JNum k \<Rightarrow> (Inr (filter (\<lambda>r. row_id r = k) rs), s)
           | _ \<Rightarrow> (Inl data_error, s)))"

text \<open>
  \<open>INSERT\<close> takes the next value of the sequence of the \<open>serial\<close> column (a 4-byte
  integer) and checks the primary key.
\<close>

definition pg_insert :: "env \<Rightarrow> json \<Rightarrow> json \<Rightarrow> state \<Rightarrow> (exn + row list) \<times> state" where
  "pg_insert e n d s =
     (case items s of
        None \<Rightarrow> (Inl undefined_table, s)
      | Some rs \<Rightarrow>
          (case (name_param e n, text_param e d) of
             (Some nm, Some ds) \<Rightarrow>
               if 2147483647 \<le> items_seq s then (Inl sequence_exhausted, s)
               else
                 (let i = items_seq s + 1;
                      s1 = s\<lparr>items_seq := i\<rparr>;
                      r = \<lparr>row_id = i, row_name = nm, row_description = ds\<rparr>
                  in if i \<in> row_id ` set rs then (Inl unique_violation, s1)
                     else (Inr [r], s1\<lparr>items := Some (rs @ [r])\<rparr>))
           | _ \<Rightarrow> (Inl data_error, s)))"

text \<open>
  \<open>UPDATE ... WHERE id = k RETURNING *\<close> with the assignments of its \<open>SET\<close> list,
  applied from left to right to every row whose id is \<open>k\<close>.
\<close>

definition pg_update ::
    "(row \<Rightarrow> row) option list \<Rightarrow> json \<Rightarrow> state \<Rightarrow> (exn + row list) \<times> state" where
  "pg_update asg i s =
     (case items s of
        None \<Rightarrow> (Inl undefined_table, s)
      | Some rs \<Rightarrow>
          (case (those asg, i) of
             (Some fs, JNum k) \<Rightarrow>
               (let rs' = map (\<lambda>r. if row_id r = k then fold (\<lambda>f. f) fs r else r) rs
                in (Inr (filter (\<lambda>r. row_id r = k) rs'), s\<lparr>items := Some rs'\<rparr>))
           | _ \<Rightarrow> (Inl data_error, s)))"

text \<open>\<open>DELETE\<close>: the rows returned are the deleted ones; \<open>cur.rowcount\<close> is their number.\<close>

definition pg_delete :: "json \<Rightarrow> state \<Rightarrow> (exn + row list) \<times> state" where
  "pg_delete i s =
     (case items s of
        None \<Rightarrow> (Inl undefined_table, s)
      | Some rs \<Rightarrow>
          (case i of
             JNum k \<Rightarrow>
               (Inr (filter (\<lambda>r. row_id r = k) rs),
                s\<lparr>items := Some (filter (\<lambda>r. row_id r \<noteq> k) rs)\<rparr>)
           | _ \<Rightarrow> (Inl data_error, s)))"

definition pg_create :: "state \<Rightarrow> (exn + row list) \<times> state" where
  "pg_create s =
     (case items s of
        None \<Rightarrow> (Inr [], s\<lparr>items := Some [], items_seq := 0\<rparr>)
      | Some rs \<Rightarrow> (Inl (DatabaseError, ''relation items already exists''), s))"

definition pg_create_if_not_exists :: "state \<Rightarrow> (exn + row list) \<times> state" where
  "pg_create_if_not_exists s =
     (case items s of
        None \<Rightarrow> (Inr [], s\<lparr>items := Some [], items_seq := 0\<rparr>)
      | Some rs \<Rightarrow> (Inr [], s))"

definition pg_drop_if_exists :: "state \<Rightarrow> (exn + row list) \<times> state" where
  "pg_drop_if_exists s = (Inr [], s\<lparr>items := None\<rparr>)"

definition create_table_if_not_exists_sql :: string where
  "create_table_if_not_exists_sql =
     ''CREATE TABLE IF NOT EXISTS items (id SERIAL PRIMARY KEY, name VARCHAR(255) NOT NULL, description TEXT)''"

definition create_table_sql :: string where
  "create_table_sql =
     ''CREATE TABLE items (id SERIAL PRIMARY KEY, name VARCHAR(255) NOT NULL, description TEXT)''"

definition insert_sql :: string where
  "insert_sql =
     ''INSERT INTO items (name, description) VALUES (%s, %s) RETURNING id, name, description''"

definition pg_execute ::
    "env \<Rightarrow> string \<Rightarrow> json list \<Rightarrow> state \<Rightarrow> (exn + row list) \<times> state" where
  "pg_execute e sql params s =
     (if sql = ''SELECT 1'' then (Inr [], s)
      else if sql = ''SELECT * FROM items ORDER BY id'' then pg_select_all s
      else if sql = ''SELECT * FROM items WHERE id = %s'' then
        (case params of [i] \<Rightarrow> pg_select_by_id i s | _ \<Rightarrow> (Inl data_error, s))
      else if sql = insert_sql then
        (case params of [n, d] \<Rightarrow> pg_insert e n d s | _ \<Rightarrow> (Inl data_error, s))
      else if sql = ''UPDATE items SET name = %s WHERE id = %s RETURNING *'' then
        (case params of
           [n, i] \<Rightarrow> pg_update [set_name e n] i s
         | _ \<Rightarrow> (Inl data_error, s))
      else if sql = ''UPDATE items SET description = %s WHERE id = %s RETURNING *'' then
        (case params of
           [d, i] \<Rightarrow> pg_update [set_description e d] i s
         | _ \<Rightarrow> (Inl data_error, s))
      else if sql = ''UPDATE items SET name = %s, description = %s WHERE id = %s RETURNING *'' then
        (case params of
           [n, d, i] \<Rightarrow> pg_update [set_name e n, set_description e d] i s
         | _ \<Rightarrow> (Inl data_error, s))
      else if sql = ''DELETE FROM items WHERE id = %s'' then
        (case params of [i] \<Rightarrow> pg_delete i s | _ \<Rightarrow> (Inl data_error, s))
      else if sql = ''DROP TABLE IF EXISTS items'' then pg_drop_if_exists s
      else if sql = create_table_sql then pg_create s
      else if sql = create_table_if_not_exists_sql then pg_create_if_not_exists s
      else (Inl syntax_error, s))"

subsection \<open>Cursor and connection operations\<close>

definition execute ::
    "env \<Rightarrow> string \<Rightarrow> json list \<Rightarrow> state \<Rightarrow> (exn + row list) \<times> state" where
  "execute e sql params s = pg_execute e sql params (s\<lparr>trace := trace s @ [Execute sql params]\<rparr>)"

definition fetchone :: "row list \<Rightarrow> row option" where
  "fetchone rs = (case rs of [] \<Rightarrow> None | r # _ \<Rightarrow> Some r)"

definition commit :: "state \<Rightarrow> state" where
  "commit s = s\<lparr>trace := trace s @ [Commit]\<rparr>"

definition close :: "nat \<Rightarrow> state \<Rightarrow> state" where
  "close conn s = s\<lparr>open_conns := open_conns s - {conn}, trace := trace s @ [Close conn]\<rparr>"

text \<open>A row as \<open>RealDictCursor\<close> hands it to \<open>jsonify\<close>.\<close>

definition item_json :: "row \<Rightarrow> json" where
  "item_json r =
     JObj [(''id'', JNum (row_id r)),
           (''name'', JStr (row_name r)),
           (''description'', case row_description r of None \<Rightarrow> JNull | Some d \<Rightarrow> JStr d)]"

section \<open>Request parsing\<close>

text \<open>
  Flask's \<open>request.get_json()\<close> with its default arguments: a body that does not parse
  raises \<open>BadRequest\<close>; the JSON document \<open>null\<close> is returned as \<open>None\<close>.
\<close>

definition get_json :: "env \<Rightarrow> request \<Rightarrow> exn + json" where
  "get_json e req =
     (if \<not> is_json req then
        (if legacy_json e then Inr JNull
         else Inl (UnsupportedMediaType, ''415 Unsupported Media Type''))
      else
        (case payload req of
           None \<Rightarrow> Inl (BadRequest, ''400 Bad Request: Failed to decode JSON object'')
         | Some v \<Rightarrow> Inr v))"

text \<open>\<open>data.get(key, default)\<close>: only a dict has the method.\<close>

definition py_get_default :: "json \<Rightarrow> string \<Rightarrow> json \<Rightarrow> exn + json" where
  "py_get_default data k dflt =
     (case data of
        JObj kvs \<Rightarrow> Inr (case map_of kvs k of None \<Rightarrow> dflt | Some v \<Rightarrow> v)
      | _ \<Rightarrow> Inl (AttributeError, ''object has no attribute get''))"

definition py_get :: "json \<Rightarrow> string \<Rightarrow> exn + json" where
  "py_get data k = py_get_default data k JNull"

section \<open>Handlers\<close>

text \<open>
  Each handler is its \<open>try\<close> block, in which an exception is \<open>Inl\<close>, under the handler's
  \<open>except Exception as e: return jsonify({'error': str(e)}), 500\<close>.
\<close>

definition catch500 :: "(exn + response) \<times> state \<Rightarrow> response \<times> state" where
  "catch500 r =
     (case r of
        (Inl x, s) \<Rightarrow> (error_response (str_exn x) 500, s)
      | (Inr resp, s) \<Rightarrow> (resp, s))"

definition init_db_try :: "env \<Rightarrow> state \<Rightarrow> (exn + bool) \<times> state" where
  "init_db_try e s =
     (case get_db_connection e s of
        (Inl x, s1) \<Rightarrow> (Inl x, s1)
      | (Inr conn, s1) \<Rightarrow>
          (case execute e create_table_if_not_exists_sql [] s1 of
             (Inl x, s2) \<Rightarrow> (Inl x, s2)
           | (Inr rows, s2) \<Rightarrow> (Inr True, close conn (commit s2))))"

definition init_db :: "env \<Rightarrow> state \<Rightarrow> bool \<times> state" where
  "init_db e s =
     (case init_db_try e s of
        (Inl x, s1) \<Rightarrow> (False, s1)
      | (Inr ok, s1) \<Rightarrow> (ok, s1))"

text \<open>
  The module runs \<open>init_db()\<close>, drops its result and starts the server, which serves
  until the process is terminated from outside.
\<close>

datatype process = Serving | Exited

definition startup :: "env \<Rightarrow> state \<Rightarrow> process \<times> state" where
  "startup e s = (case init_db e s of (ok, s1) \<Rightarrow> (Serving, s1))"

definition index :: "env \<Rightarrow> state \<Rightarrow> response \<times> state" where
  "index e s =
     (jsonify (JObj [(''service'', JStr ''Backend API''),
                     (''hostname'', JStr (hostname e)),
                     (''status'', JStr ''running''),
                     (''database'', JStr ''connected'')]), s)"

definition health :: "env \<Rightarrow> state \<Rightarrow> response \<times> state" where
  "health e s =
     (case get_db_connection e s of
        (Inl x, s1) \<Rightarrow>
          ((JObj [(''status'', JStr ''unhealthy''), (''database'', JStr ''disconnected''),
                  (''error'', JStr (str_exn x)), (''hostname'', JStr (hostname e))], 500), s1)
      | (Inr conn, s1) \<Rightarrow>
          (case execute e ''SELECT 1'' [] s1 of
             (Inl x, s2) \<Rightarrow>
               ((JObj [(''status'', JStr ''unhealthy''), (''database'', JStr ''disconnected''),
                       (''error'', JStr (str_exn x)), (''hostname'', JStr (hostname e))], 500), s2)
           | (Inr rows, s2) \<Rightarrow>
               (jsonify (JObj [(''status'', JStr ''healthy''), (''database'', JStr ''connected''),
                               (''hostname'', JStr (hostname e))]), close conn s2)))"

definition get_items_try :: "env \<Rightarrow> state \<Rightarrow> (exn + response) \<times> state" where
  "get_items_try e s =
     (case get_db_connection e s of
        (Inl x, s1) \<Rightarrow> (Inl x, s1)
      | (Inr conn, s1) \<Rightarrow>
          (case execute e ''SELECT * FROM items ORDER BY id'' [] s1 of
             (Inl x, s2) \<Rightarrow> (Inl x, s2)
           | (Inr rows, s2) \<Rightarrow> (Inr (jsonify (JArr (map item_json rows))), close conn s2)))"

definition get_items :: "env \<Rightarrow> state \<Rightarrow> response \<times> state" where
  "get_items e s = catch500 (get_items_try e s)"

definition create_item_try :: "env \<Rightarrow> request \<Rightarrow> state \<Rightarrow> (exn + response) \<times> state" where
  "create_item_try e req s =
     (case get_json e req of
        Inl x \<Rightarrow> (Inl x, s)
      | Inr data \<Rightarrow>
          if \<not> truthy data then (Inr (error_response ''Request must contain JSON'' 400), s)
          else
            (case py_get data ''name'' of
               Inl x \<Rightarrow> (Inl x, s)
             | Inr name \<Rightarrow>
                 if \<not> truthy name then (Inr (error_response ''Item name is required'' 400), s)
                 else
                   (case py_get_default data ''description'' (JStr []) of
                      Inl x \<Rightarrow> (Inl x, s)
                    | Inr description \<Rightarrow>
                        (case get_db_connection e s of
                           (Inl x, s1) \<Rightarrow> (Inl x, s1)
                         | (Inr conn, s1) \<Rightarrow>
                             (case execute e insert_sql [name, description] s1 of
                                (Inl x, s2) \<Rightarrow> (Inl x, s2)
                              | (Inr rows, s2) \<Rightarrow>
                                  (Inr (case fetchone rows of
                                          None \<Rightarrow> JNull
                                        | Some item \<Rightarrow> item_json item, 201),
                                   close conn (commit s2)))))))"

definition create_item :: "env \<Rightarrow> request \<Rightarrow> state \<Rightarrow> response \<times> state" where
  "create_item e req s = catch500 (create_item_try e req s)"

definition get_item_try :: "env \<Rightarrow> nat \<Rightarrow> state \<Rightarrow> (exn + response) \<times> state" where
  "get_item_try e i s =
     (case get_db_connection e s of
        (Inl x, s1) \<Rightarrow> (Inl x, s1)
      | (Inr conn, s1) \<Rightarrow>
          (case execute e ''SELECT * FROM items WHERE id = %s'' [JNum (int i)] s1 of
             (Inl x, s2) \<Rightarrow> (Inl x, s2)
           | (Inr rows, s2) \<Rightarrow>
               (Inr (case fetchone rows of
                       Some item \<Rightarrow> jsonify (item_json item)
                     | None \<Rightarrow> error_response ''Item not found'' 404),
                close conn s2)))"

definition get_item :: "env \<Rightarrow> nat \<Rightarrow> state \<Rightarrow> response \<times> state" where
  "get_item e i s = catch500 (get_item_try e i s)"

text \<open>
  The statement of \<open>update_item\<close>: one clause and one value for each of \<open>name\<close> and
  \<open>description\<close> that is not \<open>None\<close>, in this order.
\<close>

definition join :: "string \<Rightarrow> string list \<Rightarrow> string" where
  "join sep xs = (case xs of [] \<Rightarrow> [] | x # ys \<Rightarrow> x @ concat (map (\<lambda>y. sep @ y) ys))"

definition updates :: "json \<Rightarrow> json \<Rightarrow> string list" where
  "updates name description =
     (if name \<noteq> JNull then [''name = %s''] else [])
     @ (if description \<noteq> JNull then [''description = %s''] else [])"

definition values_of :: "json \<Rightarrow> json \<Rightarrow> json list" where
  "values_of name description =
     (if name \<noteq> JNull then [name] else [])
     @ (if description \<noteq> JNull then [description] else [])"

definition query :: "string list \<Rightarrow> string" where
  "query ups = ''UPDATE items SET '' @ join '', '' ups @ '' WHERE id = %s RETURNING *''"

definition update_item_try ::
    "env \<Rightarrow> nat \<Rightarrow> request \<Rightarrow> state \<Rightarrow> (exn + response) \<times> state" where
  "update_item_try e i req s =
     (case get_json e req of
        Inl x \<Rightarrow> (Inl x, s)
      | Inr data \<Rightarrow>
          if \<not> truthy data then (Inr (error_response ''Request must contain JSON'' 400), s)
          else
            (case py_get data ''name'' of
               Inl x \<Rightarrow> (Inl x, s)
             | Inr name \<Rightarrow>
                 (case py_get data ''description'' of
                    Inl x \<Rightarrow> (Inl x, s)
                  | Inr description \<Rightarrow>
                      if updates name description = [] then
                        (Inr (error_response ''At least one field to update is required'' 400), s)
                      else
                        (case get_db_connection e s of
                           (Inl x, s1) \<Rightarrow> (Inl x, s1)
                         | (Inr conn, s1) \<Rightarrow>
                             (case execute e (query (updates name description))
                                     (values_of name description @ [JNum (int i)]) s1 of
                                (Inl x, s2) \<Rightarrow> (Inl x, s2)
                              | (Inr rows, s2) \<Rightarrow>
                                  (Inr (case fetchone rows of
                                          Some updated_item \<Rightarrow> jsonify (item_json updated_item)
                                        | None \<Rightarrow> error_response ''Item not found'' 404),
                                   close conn (commit s2)))))))"

definition update_item :: "env \<Rightarrow> nat \<Rightarrow> request \<Rightarrow> state \<Rightarrow> response \<times> state" where
  "update_item e i req s = catch500 (update_item_try e i req s)"

definition delete_item_try :: "env \<Rightarrow> nat \<Rightarrow> state \<Rightarrow> (exn + response) \<times> state" where
  "delete_item_try e i s =
     (case get_db_connection e s of
        (Inl x, s1) \<Rightarrow> (Inl x, s1)
      | (Inr conn, s1) \<Rightarrow>
          (case execute e ''DELETE FROM items WHERE id = %s'' [JNum (int i)] s1 of
             (Inl x, s2) \<Rightarrow> (Inl x, s2)
           | (Inr rows, s2) \<Rightarrow>
               (Inr (if 0 < length rows
                     then jsonify (JObj [(''message'', JStr ''Item deleted successfully'')])
                     else error_response ''Item not found'' 404),
                close conn (commit s2))))"

definition delete_item :: "env \<Rightarrow> nat \<Rightarrow> state \<Rightarrow> response \<times> state" where
  "delete_item e i s = catch500 (delete_item_try e i s)"

definition reset_database_try :: "env \<Rightarrow> state \<Rightarrow> (exn + response) \<times> state" where
  "reset_database_try e s =
     (case get_db_connection e s of
        (Inl x, s1) \<Rightarrow> (Inl x, s1)
      | (Inr conn, s1) \<Rightarrow>
          (case execute e ''DROP TABLE IF EXISTS items'' [] s1 of
             (Inl x, s2) \<Rightarrow> (Inl x, s2)
           | (Inr rows, s2) \<Rightarrow>
               (case execute e create_table_sql [] s2 of
                  (Inl x, s3) \<Rightarrow> (Inl x, s3)
                | (Inr rows', s3) \<Rightarrow>
                    (Inr (JObj [(''message'', JStr ''Table reset successfully'')], 200),
                     close conn (commit s3)))))"

definition reset_database :: "env \<Rightarrow> state \<Rightarrow> response \<times> state" where
  "reset_database e s = catch500 (reset_database_try e s)"

section \<open>Reading a run\<close>

text \<open>The statements sent to the server, with their parameters, in order.\<close>

fun executed :: "event list \<Rightarrow> (string \<times> json list) list" where
  "executed [] = []"
| "executed (Execute sql params # es) = (sql, params) # executed es"
| "executed (ev # es) = executed es"

text \<open>
  A trace of connection attempts in which every sleep lasts 3 seconds and stands between
  two attempts.
\<close>

fun sleeps_only_between :: "event list \<Rightarrow> bool" where
  "sleeps_only_between [] = True"
| "sleeps_only_between [Connect] = True"
| "sleeps_only_between (Connect # Sleep n # Connect # es) =
     (n = 3 \<and> sleeps_only_between (Connect # es))"
| "sleeps_only_between es = False"

text \<open>A member of a request object that \<open>update_item\<close> takes as given: present and not null.\<close>

definition supplied :: "(string \<times> json) list \<Rightarrow> string \<Rightarrow> bool" where
  "supplied kvs k = (case map_of kvs k of None \<Rightarrow> False | Some v \<Rightarrow> v \<noteq> JNull)"

definition member :: "(string \<times> json) list \<Rightarrow> string \<Rightarrow> json" where
  "member kvs k = (case map_of kvs k of None \<Rightarrow> JNull | Some v \<Rightarrow> v)"

text \<open>
  The ids in the table were handed out by its sequence: they are positive, at most the
  last value of the sequence, and no two rows share one (the primary key).
\<close>

definition ids_assigned :: "state \<Rightarrow> bool" where
  "ids_assigned s =
     (case items s of
        None \<Rightarrow> True
      | Some rs \<Rightarrow>
          0 \<le> items_seq s \<and> distinct (map row_id rs)
          \<and> list_all (\<lambda>r. 0 < row_id r \<and> row_id r \<le> items_seq s) rs)"

subsection \<open>Sample worlds\<close>

definition env_up :: env where
  "env_up = \<lparr>hostname = ''backend'', legacy_json = False,
             connect_outcome = (\<lambda>n. Connected), adapt_other = (\<lambda>v. None)\<rparr>"

definition env_down :: env where
  "env_down = \<lparr>hostname = ''backend'', legacy_json = False,
               connect_outcome = (\<lambda>n. Refused ''connection refused''),
               adapt_other = (\<lambda>v. None)\<rparr>"

definition env_flaky :: env where
  "env_flaky = \<lparr>hostname = ''backend'', legacy_json = False,
                connect_outcome = (\<lambda>n. if n < 2 then Refused ''connection refused'' else Connected),
                adapt_other = (\<lambda>v. None)\<rparr>"

definition state_fresh :: state where
  "state_fresh = \<lparr>attempts = 0, open_conns = {}, trace = [], items = None, items_seq = 0\<rparr>"

definition state_empty :: state where
  "state_empty = \<lparr>attempts = 0, open_conns = {}, trace = [], items = Some [], items_seq = 0\<rparr>"

definition state_three :: state where
  "state_three =
     \<lparr>attempts = 0, open_conns = {}, trace = [],
      items = Some [\<lparr>row_id = 3, row_name = ''c'', row_description = Some ''third''\<rparr>,
                    \<lparr>row_id = 1, row_name = ''a'', row_description = None\<rparr>,
                    \<lparr>row_id = 2, row_name = ''b'', row_description = Some []\<rparr>],
      items_seq = 3\<rparr>"

definition json_request :: "json \<Rightarrow> request" where
  "json_request v = \<lparr>is_json = True, payload = Some v\<rparr>"

definition malformed_request :: request where
  "malformed_request = \<lparr>is_json = True, payload = None\<rparr>"

section \<open>Auxiliary facts\<close>

subsection \<open>The retry loop\<close>

lemma loop_refused:
  "\<forall>k < m - r. \<exists>msg. connect_outcome e (attempts s + k) = Refused msg \<Longrightarrow>
   get_db_connection_loop e m r s =
     (Inl exhausted,
      s\<lparr>attempts := attempts s + (m - r),
        trace := trace s @ concat (replicate (m - r) [Connect, Sleep 3])\<rparr>)"
proof (induction e m r s rule: get_db_connection_loop.induct)
  case (1 e m r s)
  show ?case
  proof (cases "r < m")
    case False
    then show ?thesis by (subst get_db_connection_loop.simps) simp
  next
    case True
    then have mr: "m - r = Suc (m - Suc r)" by simp
    from 1(2) True obtain msg where o: "connect_outcome e (attempts s) = Refused msg"
      by (metis add.right_neutral zero_less_diff)
    let ?s1 = "s\<lparr>attempts := Suc (attempts s), trace := trace s @ [Connect]\<rparr>"
    let ?s2 = "?s1\<lparr>trace := trace ?s1 @ [Sleep 3]\<rparr>"
    have h: "\<forall>k < m - Suc r. \<exists>msg. connect_outcome e (attempts ?s2 + k) = Refused msg"
    proof (intro allI impI)
      fix k assume "k < m - Suc r"
      then have "Suc k < m - r" using mr by simp
      with 1(2) have "\<exists>msg. connect_outcome e (attempts s + Suc k) = Refused msg"
        by blast
      then show "\<exists>msg. connect_outcome e (attempts ?s2 + k) = Refused msg"
        by simp
    qed
    have "get_db_connection_loop e m r s = get_db_connection_loop e m (Suc r) ?s2"
      using True o by (subst get_db_connection_loop.simps) (simp add: Let_def)
    also have "\<dots> = (Inl exhausted,
      ?s2\<lparr>attempts := attempts ?s2 + (m - Suc r),
        trace := trace ?s2 @ concat (replicate (m - Suc r) [Connect, Sleep 3])\<rparr>)"
      using 1(1)[OF True refl o h] .
    finally show ?thesis using mr by simp
  qed
qed


lemma loop_connected:
  "k < m - r \<Longrightarrow>
   \<forall>j < k. \<exists>msg. connect_outcome e (attempts s + j) = Refused msg \<Longrightarrow>
   connect_outcome e (attempts s + k) = Connected \<Longrightarrow>
   get_db_connection_loop e m r s =
     (Inr (attempts s + k),
      s\<lparr>attempts := Suc (attempts s + k),
        trace := trace s @ concat (replicate k [Connect, Sleep 3]) @ [Connect],
        open_conns := insert (attempts s + k) (open_conns s)\<rparr>)"
proof (induction k arbitrary: r s)
  case 0
  then show ?case by (subst get_db_connection_loop.simps) simp
next
  case (Suc k)
  from Suc.prems(2) obtain msg where o: "connect_outcome e (attempts s) = Refused msg"
    by (metis add.right_neutral zero_less_Suc)
  let ?s1 = "s\<lparr>attempts := Suc (attempts s), trace := trace s @ [Connect]\<rparr>"
  let ?s2 = "?s1\<lparr>trace := trace ?s1 @ [Sleep 3]\<rparr>"
  have r: "r < m" and k: "k < m - Suc r" using Suc.prems(1) by simp_all
  have h: "\<forall>j < k. \<exists>msg. connect_outcome e (attempts ?s2 + j) = Refused msg"
  proof (intro allI impI)
    fix j assume "j < k"
    then have "Suc j < Suc k" by simp
    with Suc.prems(2) have "\<exists>msg. connect_outcome e (attempts s + Suc j) = Refused msg"
      by blast
    then show "\<exists>msg. connect_outcome e (attempts ?s2 + j) = Refused msg" by simp
  qed
  have c: "connect_outcome e (attempts ?s2 + k) = Connected"
    using Suc.prems(3) by simp
  have "get_db_connection_loop e m r s = get_db_connection_loop e m (Suc r) ?s2"
    using r o by (subst get_db_connection_loop.simps) (simp add: Let_def)
  also note Suc.IH [OF k h c]
  finally show ?case by simp
qed

lemma loop_attempts:
  "attempts (snd (get_db_connection_loop e m r s)) \<le> attempts s + (m - r)"
proof (induction e m r s rule: get_db_connection_loop.induct)
  case (1 e m r s)
  show ?case
  proof (cases "r < m")
    case False
    then show ?thesis by (subst get_db_connection_loop.simps) simp
  next
    case True
    show ?thesis
    proof (cases "connect_outcome e (attempts s)")
      case Connected
      then show ?thesis using True by (subst get_db_connection_loop.simps) (simp add: Let_def)
    next
      case (Refused msg)
      then show ?thesis using True 1[OF True refl Refused]
        by (subst get_db_connection_loop.simps) (simp add: Let_def)
    next
      case (Broken x)
      then show ?thesis using True by (subst get_db_connection_loop.simps) (simp add: Let_def)
    qed
  qed
qed

lemma executed_append: "executed (xs @ ys) = executed xs @ executed ys"
  by (induction xs rule: executed.induct) simp_all

lemma loop_frame:
  "get_db_connection_loop e m r s = (res, s') \<Longrightarrow>
   items s' = items s \<and> items_seq s' = items_seq s \<and>
   executed (trace s') = executed (trace s) \<and>
   open_conns s' = (case res of Inl x \<Rightarrow> open_conns s | Inr c \<Rightarrow> insert c (open_conns s))"
proof (induction e m r s rule: get_db_connection_loop.induct)
  case (1 e m r s)
  show ?case
  proof (cases "r < m")
    case False
    with 1(2) show ?thesis by (subst (asm) get_db_connection_loop.simps) auto
  next
    case True
    show ?thesis
    proof (cases "connect_outcome e (attempts s)")
      case Connected
      with 1(2) True show ?thesis
        by (subst (asm) get_db_connection_loop.simps) (auto simp: Let_def executed_append)
    next
      case (Refused msg)
      let ?s2 = "s\<lparr>attempts := Suc (attempts s), trace := trace s @ [Connect],
                   trace := trace (s\<lparr>attempts := Suc (attempts s), trace := trace s @ [Connect]\<rparr>) @ [Sleep 3]\<rparr>"
      from 1(2) True Refused have "get_db_connection_loop e m (Suc r) ?s2 = (res, s')"
        by (subst (asm) get_db_connection_loop.simps) (simp add: Let_def)
      from 1(1)[OF True refl Refused this] show ?thesis
        by (cases res) (simp_all add: executed_append)
    next
      case (Broken x)
      with 1(2) True show ?thesis
        by (subst (asm) get_db_connection_loop.simps) (auto simp: Let_def executed_append)
    qed
  qed
qed

lemma get_db_connection_frame:
  "get_db_connection e s = (res, s') \<Longrightarrow>
   items s' = items s \<and> items_seq s' = items_seq s \<and>
   executed (trace s') = executed (trace s) \<and>
   open_conns s' = (case res of Inl x \<Rightarrow> open_conns s | Inr c \<Rightarrow> insert c (open_conns s))"
  unfolding get_db_connection_def by (rule loop_frame)

lemmas pg_defs = pg_execute_def pg_select_all_def pg_select_by_id_def pg_insert_def
  pg_update_def pg_delete_def pg_create_def pg_create_if_not_exists_def pg_drop_if_exists_def

lemma pg_execute_frame:
  "pg_execute e sql params s = (res, s') \<Longrightarrow>
   trace s' = trace s \<and> open_conns s' = open_conns s \<and> attempts s' = attempts s"
  by (auto simp: pg_defs Let_def split: if_splits option.splits list.splits json.splits prod.splits)

subsection \<open>The update statement\<close>

lemma map_if_row [simp]:
  "map row_id (map (\<lambda>r. if row_id r = k then r\<lparr>row_name := n\<rparr> else r) rs) = map row_id rs"
  "map row_id (map (\<lambda>r. if row_id r = k then r\<lparr>row_description := d\<rparr> else r) rs) = map row_id rs"
  "map row_id (map (\<lambda>r. if row_id r = k then r\<lparr>row_name := n, row_description := d\<rparr> else r) rs) = map row_id rs"
  "map row_name (map (\<lambda>r. if row_id r = k then r\<lparr>row_description := d\<rparr> else r) rs) = map row_name rs"
  "map row_description (map (\<lambda>r. if row_id r = k then r\<lparr>row_name := n\<rparr> else r) rs) = map row_description rs"
  by (induction rs) simp_all

lemma query_texts:
  "n \<noteq> JNull \<Longrightarrow> d = JNull \<Longrightarrow>
     query (updates n d) = ''UPDATE items SET name = %s WHERE id = %s RETURNING *''"
  "n = JNull \<Longrightarrow> d \<noteq> JNull \<Longrightarrow>
     query (updates n d) = ''UPDATE items SET description = %s WHERE id = %s RETURNING *''"
  "n \<noteq> JNull \<Longrightarrow> d \<noteq> JNull \<Longrightarrow>
     query (updates n d) = ''UPDATE items SET name = %s, description = %s WHERE id = %s RETURNING *''"
  "n = JNull \<Longrightarrow> d = JNull \<Longrightarrow>
     query (updates n d) = ''UPDATE items SET  WHERE id = %s RETURNING *''"
  by (simp_all add: query_def updates_def join_def)

lemma execute_update_name:
  "n \<noteq> JNull \<Longrightarrow>
   execute e (query (updates n JNull)) (values_of n JNull @ [JNum k]) s =
     pg_update [set_name e n] (JNum k) (s\<lparr>trace := trace s @ [Execute (query (updates n JNull)) [n, JNum k]]\<rparr>)"
  by (simp add: query_texts execute_def values_of_def pg_execute_def insert_sql_def)

lemma execute_update_description:
  "d \<noteq> JNull \<Longrightarrow>
   execute e (query (updates JNull d)) (values_of JNull d @ [JNum k]) s =
     pg_update [set_description e d] (JNum k) (s\<lparr>trace := trace s @ [Execute (query (updates JNull d)) [d, JNum k]]\<rparr>)"
  by (simp add: query_texts execute_def values_of_def pg_execute_def insert_sql_def)

lemma execute_update_both:
  "n \<noteq> JNull \<Longrightarrow> d \<noteq> JNull \<Longrightarrow>
   execute e (query (updates n d)) (values_of n d @ [JNum k]) s =
     pg_update [set_name e n, set_description e d] (JNum k) (s\<lparr>trace := trace s @ [Execute (query (updates n d)) [n, d, JNum k]]\<rparr>)"
  by (simp add: query_texts execute_def values_of_def pg_execute_def insert_sql_def)

lemma pg_update_name_frame:
  "pg_update [set_name e n] (JNum k) s = (res, s') \<Longrightarrow>
   map_option (map row_id) (items s') = map_option (map row_id) (items s) \<and>
   map_option (map row_description) (items s') = map_option (map row_description) (items s)"
  by (auto simp: pg_update_def set_name_def Let_def split: option.splits)

lemma pg_update_description_frame:
  "pg_update [set_description e d] (JNum k) s = (res, s') \<Longrightarrow>
   map_option (map row_id) (items s') = map_option (map row_id) (items s) \<and>
   map_option (map row_name) (items s') = map_option (map row_name) (items s)"
  by (auto simp: pg_update_def set_description_def Let_def split: option.splits)

lemma pg_update_both_frame:
  "pg_update [set_name e n, set_description e d] (JNum k) s = (res, s') \<Longrightarrow>
   map_option (map row_id) (items s') = map_option (map row_id) (items s)"
  by (auto simp: pg_update_def set_name_def set_description_def Let_def split: option.splits)

lemma execute_update_frame:
  assumes "execute e (query (updates n d)) (values_of n d @ [JNum k]) s = (res, s')"
  shows "map_option (map row_id) (items s') = map_option (map row_id) (items s) \<and>
   (n = JNull \<longrightarrow> map_option (map row_name) (items s') = map_option (map row_name) (items s)) \<and>
   (d = JNull \<longrightarrow> map_option (map row_description) (items s') = map_option (map row_description) (items s))"
proof (cases "n = JNull")
  case nn: True
  show ?thesis
  proof (cases "d = JNull")
    case True
    with nn assms have "s' = s\<lparr>trace := trace s @ [Execute (query (updates n d)) [JNum k]]\<rparr>"
      by (auto simp: query_texts execute_def values_of_def pg_execute_def insert_sql_def
            create_table_sql_def create_table_if_not_exists_sql_def)
    then show ?thesis by simp
  next
    case False
    with nn assms pg_update_description_frame show ?thesis
      by (fastforce simp: execute_update_description)
  qed
next
  case nn: False
  show ?thesis
  proof (cases "d = JNull")
    case True
    with nn assms pg_update_name_frame show ?thesis
      by (fastforce simp: execute_update_name)
  next
    case False
    with nn assms pg_update_both_frame show ?thesis
      by (fastforce simp: execute_update_both)
  qed
qed

lemma py_get_obj: "py_get (JObj kvs) k = Inr (member kvs k)"
  by (simp add: py_get_def py_get_default_def member_def)

lemma supplied_member: "supplied kvs k = (member kvs k \<noteq> JNull)"
  by (simp add: supplied_def member_def split: option.splits)

lemma close_commit_items [simp]:
  "items (close c s) = items s" "items (commit s) = items s"
  "items_seq (close c s) = items_seq s" "items_seq (commit s) = items_seq s"
  by (simp_all add: close_def commit_def)


subsection \<open>Unfolding a run on a sample world\<close>

lemmas handler_defs = get_db_connection_def get_db_connection_loop.simps exhausted_def
  execute_def fetchone_def commit_def close_def item_json_def catch500_def
  jsonify_def error_response_def str_exn_def get_json_def py_get_def py_get_default_def
  query_def updates_def values_of_def join_def
  insert_sql_def create_table_sql_def create_table_if_not_exists_sql_def
  set_name_def set_description_def name_param_def varchar255_def
  undefined_table_def data_error_def unique_violation_def sequence_exhausted_def syntax_error_def

lemmas sample_defs = env_up_def env_down_def env_flaky_def state_fresh_def state_empty_def
  state_three_def json_request_def malformed_request_def


subsection \<open>Statements and the trace\<close>

lemma execute_trace:
  "execute e q ps s = (r, s') \<Longrightarrow>
   trace s' = trace s @ [Execute q ps] \<and> open_conns s' = open_conns s"
  using pg_execute_frame [of e q ps "s\<lparr>trace := trace s @ [Execute q ps]\<rparr>" r s']
  by (simp add: execute_def)

lemma execute_select_all:
  "items s = Some rs \<Longrightarrow>
   execute e ''SELECT * FROM items ORDER BY id'' [] s =
     (Inr (sort_key row_id rs),
      s\<lparr>trace := trace s @ [Execute ''SELECT * FROM items ORDER BY id'' []]\<rparr>)"
  by (simp add: execute_def pg_execute_def pg_select_all_def)

lemma filter_id_map:
  "filter (\<lambda>r. row_id r = k) (map (\<lambda>r. if row_id r = k then f r else r) rs) =
   map f (filter (\<lambda>r. row_id r = k) rs)" if "\<And>r. row_id (f r) = row_id r"
  using that by (induction rs) simp_all

lemma execute_update_empty_name:
  assumes "items s = Some rs"
  shows "execute e (query (updates (JStr []) JNull)) (values_of (JStr []) JNull @ [JNum k]) s =
     (Inr (map (\<lambda>r. r\<lparr>row_name := []\<rparr>) (filter (\<lambda>r. row_id r = k) rs)),
      s\<lparr>trace := trace s @ [Execute ''UPDATE items SET name = %s WHERE id = %s RETURNING *'' [JStr [], JNum k]],
        items := Some (map (\<lambda>r. if row_id r = k then r\<lparr>row_name := []\<rparr> else r) rs)\<rparr>)"
proof -
  have f: "filter (\<lambda>r. row_id r = k) (map (\<lambda>r. if row_id r = k then r\<lparr>row_name := []\<rparr> else r) rs) =
   map (\<lambda>r. r\<lparr>row_name := []\<rparr>) (filter (\<lambda>r. row_id r = k) rs)"
    by (rule filter_id_map) simp
  have "execute e (query (updates (JStr []) JNull)) (values_of (JStr []) JNull @ [JNum k]) s =
      pg_update [set_name e (JStr [])] (JNum k)
        (s\<lparr>trace := trace s @ [Execute (query (updates (JStr []) JNull)) [JStr [], JNum k]]\<rparr>)"
    by (rule execute_update_name) simp
  then show ?thesis
    using assms f
    by (simp add: query_texts pg_update_def set_name_def name_param_def varchar255_def Let_def
          cong del: if_weak_cong)
qed

lemma ids_assigned_fresh:
  "ids_assigned s \<Longrightarrow> items s = Some rs \<Longrightarrow>
   0 \<le> items_seq s \<and> filter (\<lambda>r. row_id r = items_seq s + 1) rs = [] \<and>
   items_seq s + 1 \<notin> row_id ` set rs"
  by (auto simp: ids_assigned_def list_all_iff filter_empty_conv)

lemma execute_insert:
  assumes "items s = Some rs" and "ids_assigned s" and "items_seq s < 2147483647"
    and "length nm \<le> 255" and "CHR 0x00 \<notin> set nm"
  shows "execute e insert_sql [JStr nm, JStr []] s =
     (Inr [\<lparr>row_id = items_seq s + 1, row_name = nm, row_description = Some []\<rparr>],
      s\<lparr>trace := trace s @ [Execute insert_sql [JStr nm, JStr []]],
        items_seq := items_seq s + 1,
        items := Some (rs @ [\<lparr>row_id = items_seq s + 1, row_name = nm, row_description = Some []\<rparr>])\<rparr>)"
proof -
  have "pg_execute e insert_sql [JStr nm, JStr []] s' = pg_insert e (JStr nm) (JStr []) s'" for s'
    by (simp add: pg_execute_def insert_sql_def)
  moreover have "items_seq s + 1 \<notin> row_id ` set rs"
    using ids_assigned_fresh [OF assms(2,1)] by simp
  ultimately show ?thesis
    using assms
    by (simp add: execute_def pg_insert_def name_param_def varchar255_def Let_def)
qed

lemma execute_select_by_id:
  "items s = Some rs \<Longrightarrow>
   execute e ''SELECT * FROM items WHERE id = %s'' [JNum k] s =
     (Inr (filter (\<lambda>r. row_id r = k) rs),
      s\<lparr>trace := trace s @ [Execute ''SELECT * FROM items WHERE id = %s'' [JNum k]]\<rparr>)"
  by (simp add: execute_def pg_execute_def pg_select_by_id_def)

lemma update_item_executed:
  assumes "get_db_connection e s = (Inr c, s1)"
    and "supplied kvs ''name'' \<or> supplied kvs ''description''"
  shows "executed (trace (snd (update_item e i (json_request (JObj kvs)) s))) =
           executed (trace s) @
           [(query (updates (member kvs ''name'') (member kvs ''description'')),
             values_of (member kvs ''name'') (member kvs ''description'') @ [JNum (int i)])]"
proof -
  let ?n = "member kvs ''name''" and ?d = "member kvs ''description''"
  let ?q = "query (updates ?n ?d)" and ?ps = "values_of ?n ?d @ [JNum (int i)]"
  have ne: "kvs \<noteq> []" using assms(2) by (auto simp: supplied_def)
  have u: "updates ?n ?d \<noteq> []" using assms(2) by (auto simp: supplied_member updates_def)
  have t1: "executed (trace s1) = executed (trace s)"
    using assms(1) get_db_connection_frame by blast
  obtain r s2 where x: "execute e ?q ?ps s1 = (r, s2)" by (cases "execute e ?q ?ps s1")
  then have t2: "trace s2 = trace s1 @ [Execute ?q ?ps]" using execute_trace by blast
  have "executed (trace (snd (update_item e i (json_request (JObj kvs)) s))) =
      executed (trace s1) @ [(?q, ?ps)]"
    using assms(1) ne u x t2
    by (cases r)
       (simp_all add: update_item_def update_item_try_def catch500_def get_json_def
          json_request_def py_get_obj executed_append close_def commit_def)
  then show ?thesis using t1 by simp
qed

section \<open>Properties of the handlers\<close>

text \<open>
  C7. For every request object, \<open>update_item\<close> leaves the ids of all rows as they are,
  leaves every name as it is when the request supplies no \<open>name\<close>, and leaves every
  description as it is when the request supplies no \<open>description\<close>: only the supplied
  fields are modified.
\<close>

theorem update_item_frame:
  assumes "payload req = Some (JObj kvs)"
  shows "map_option (map row_id) (items (snd (update_item e i req s))) = map_option (map row_id) (items s) \<and>
     (\<not> supplied kvs ''name'' \<longrightarrow>
        map_option (map row_name) (items (snd (update_item e i req s))) = map_option (map row_name) (items s)) \<and>
     (\<not> supplied kvs ''description'' \<longrightarrow>
        map_option (map row_description) (items (snd (update_item e i req s)))
          = map_option (map row_description) (items s))"
proof -
  let ?n = "member kvs ''name''" and ?d = "member kvs ''description''"
  obtain r1 s1 where c: "get_db_connection e s = (r1, s1)" by (cases "get_db_connection e s")
  then have i1: "items s1 = items s" using get_db_connection_frame by blast
  obtain r2 s2 where x: "execute e (query (updates ?n ?d)) (values_of ?n ?d @ [JNum (int i)]) s1 = (r2, s2)"
    by (cases "execute e (query (updates ?n ?d)) (values_of ?n ?d @ [JNum (int i)]) s1")
  note f = execute_update_frame [OF x]
  have "items (snd (update_item e i req s)) = items s \<or> items (snd (update_item e i req s)) = items s2"
    using assms c x i1
    by (auto simp: update_item_def update_item_try_def catch500_def get_json_def py_get_obj
          split: sum.splits prod.splits option.splits if_splits)
  then show ?thesis using f i1 by (auto simp: supplied_member)
qed

theorem update_item_frame_witness:
  "payload (json_request (JObj [(''description'', JStr ''x'')])) = Some (JObj [(''description'', JStr ''x'')]) \<and>
   \<not> supplied [(''description'', JStr ''x'')] ''name'' \<and>
   map_option (map row_name) (items (snd (update_item env_up 2 (json_request (JObj [(''description'', JStr ''x'')])) state_three)))
     = Some [''c'', ''a'', ''b''] \<and>
   map_option (map row_description) (items (snd (update_item env_up 2 (json_request (JObj [(''description'', JStr ''x'')])) state_three)))
     = Some [Some ''third'', None, Some ''x'']"
proof -
  have p: "payload (json_request (JObj [(''description'', JStr ''x'')])) = Some (JObj [(''description'', JStr ''x'')])"
    by (simp add: json_request_def)
  have d: "map_option (map row_description) (items (snd (update_item env_up 2 (json_request (JObj [(''description'', JStr ''x'')])) state_three)))
     = Some [Some ''third'', None, Some ''x'']"
    by (simp add: update_item_def update_item_try_def handler_defs pg_defs sample_defs)
  have n: "\<not> supplied [(''description'', JStr ''x'')] ''name''"
    by (simp add: supplied_def)
  from update_item_frame [OF p, of env_up 2 state_three] n
  have "map_option (map row_name) (items (snd (update_item env_up 2 (json_request (JObj [(''description'', JStr ''x'')])) state_three)))
     = map_option (map row_name) (items state_three)" by blast
  then show ?thesis using p d n by (simp add: state_three_def)
qed


text \<open>
  C3 (as amended). A call of \<open>get_db_connection\<close> makes at most 5 connection
  attempts. When all five fail with an \<open>OperationalError\<close> it sleeps 3 seconds after each
  of them, the fifth included, and then raises the error of the exhausted retries. When
  the attempt number \<open>k < 5\<close> is the first to succeed, it has slept 3 seconds after each of
  the \<open>k\<close> failures before, and it returns the connection of that attempt.
\<close>

theorem get_db_connection_retries:
  "attempts (snd (get_db_connection e s)) \<le> attempts s + 5 \<and>
   ((\<forall>k<5. \<exists>msg. connect_outcome e (attempts s + k) = Refused msg) \<longrightarrow>
      get_db_connection e s =
        (Inl exhausted,
         s\<lparr>attempts := attempts s + 5,
           trace := trace s @ concat (replicate 5 [Connect, Sleep 3])\<rparr>)) \<and>
   (\<forall>k<5. (\<forall>j<k. \<exists>msg. connect_outcome e (attempts s + j) = Refused msg) \<and>
           connect_outcome e (attempts s + k) = Connected \<longrightarrow>
      get_db_connection e s =
        (Inr (attempts s + k),
         s\<lparr>attempts := Suc (attempts s + k),
           trace := trace s @ concat (replicate k [Connect, Sleep 3]) @ [Connect],
           open_conns := insert (attempts s + k) (open_conns s)\<rparr>))"
proof (intro conjI allI impI)
  show "attempts (snd (get_db_connection e s)) \<le> attempts s + 5"
    using loop_attempts [of e 5 0 s] by (simp add: get_db_connection_def)
next
  assume "\<forall>k<5. \<exists>msg. connect_outcome e (attempts s + k) = Refused msg"
  then show "get_db_connection e s =
        (Inl exhausted,
         s\<lparr>attempts := attempts s + 5,
           trace := trace s @ concat (replicate 5 [Connect, Sleep 3])\<rparr>)"
    using loop_refused [of 5 0 e s] by (simp add: get_db_connection_def)
next
  fix k :: nat
  assume "k < 5"
    and "(\<forall>j<k. \<exists>msg. connect_outcome e (attempts s + j) = Refused msg) \<and>
           connect_outcome e (attempts s + k) = Connected"
  then show "get_db_connection e s =
        (Inr (attempts s + k),
         s\<lparr>attempts := Suc (attempts s + k),
           trace := trace s @ concat (replicate k [Connect, Sleep 3]) @ [Connect],
           open_conns := insert (attempts s + k) (open_conns s)\<rparr>)"
    using loop_connected [of k 5 0 e s] by (simp add: get_db_connection_def)
qed

theorem get_db_connection_retries_witness:
  "get_db_connection env_down state_fresh =
     (Inl exhausted,
      state_fresh\<lparr>attempts := 5,
        trace := [Connect, Sleep 3, Connect, Sleep 3, Connect, Sleep 3, Connect, Sleep 3,
                  Connect, Sleep 3]\<rparr>) \<and>
   get_db_connection env_flaky state_fresh =
     (Inr 2,
      state_fresh\<lparr>attempts := 3,
        trace := [Connect, Sleep 3, Connect, Sleep 3, Connect],
        open_conns := {2}\<rparr>)"
proof -
  have down: "\<forall>k<5. \<exists>msg. connect_outcome env_down (attempts state_fresh + k) = Refused msg"
    by (simp add: env_down_def state_fresh_def)
  have flaky: "(\<forall>j<2. \<exists>msg. connect_outcome env_flaky (attempts state_fresh + j) = Refused msg) \<and>
           connect_outcome env_flaky (attempts state_fresh + 2) = Connected"
    by (simp add: env_flaky_def state_fresh_def)
  have r5: "concat (replicate 5 [Connect, Sleep 3]) =
      [Connect, Sleep 3, Connect, Sleep 3, Connect, Sleep 3, Connect, Sleep 3, Connect, Sleep 3]"
    by (simp add: numeral_eq_Suc)
  have r2: "concat (replicate 2 [Connect, Sleep 3]) = [Connect, Sleep 3, Connect, Sleep 3]"
    by (simp add: numeral_eq_Suc)
  have two: "(2::nat) < 5" by simp
  from get_db_connection_retries [of env_down state_fresh] down
  have a: "get_db_connection env_down state_fresh =
        (Inl exhausted,
         state_fresh\<lparr>attempts := attempts state_fresh + 5,
           trace := trace state_fresh @ concat (replicate 5 [Connect, Sleep 3])\<rparr>)"
    by blast
  from get_db_connection_retries [of env_flaky state_fresh] flaky two
  have b: "get_db_connection env_flaky state_fresh =
        (Inr (attempts state_fresh + 2),
         state_fresh\<lparr>attempts := Suc (attempts state_fresh + 2),
           trace := trace state_fresh @ concat (replicate 2 [Connect, Sleep 3]) @ [Connect],
           open_conns := insert (attempts state_fresh + 2) (open_conns state_fresh)\<rparr>)"
    by blast
  show ?thesis
    unfolding a b r5 r2 by (simp add: state_fresh_def)
qed

text \<open>
  C3 as stated fails: with a database that refuses every attempt, a sleep follows the
  fifth attempt, after which no attempt is made.
\<close>

theorem get_db_connection_trailing_sleep_counterexample:
  "fst (get_db_connection env_down state_fresh) = Inl exhausted \<and>
   \<not> sleeps_only_between (trace (snd (get_db_connection env_down state_fresh)))"
  by (simp add: get_db_connection_def get_db_connection_loop.simps env_down_def state_fresh_def)

text \<open>
  C1 (as amended). Startup always reaches the serving state: when the connection
  provider raises, whatever the error, \<open>init_db\<close> returns \<open>False\<close>, the table is left
  as it was, and the server is started all the same.
\<close>

theorem startup_never_exits:
  "fst (startup e s) = Serving \<and>
   (fst (get_db_connection e s) = Inl x \<longrightarrow>
      fst (init_db e s) = False \<and> items (snd (startup e s)) = items s)"
proof -
  obtain r s1 where c: "get_db_connection e s = (r, s1)" by (cases "get_db_connection e s")
  then have "items s1 = items s" using get_db_connection_frame by blast
  with c show ?thesis
    by (auto simp: startup_def init_db_def init_db_try_def split: prod.splits sum.splits)
qed

theorem startup_never_exits_witness:
  "fst (get_db_connection env_down state_fresh) = Inl exhausted \<and>
   fst (startup env_down state_fresh) = Serving \<and>
   fst (init_db env_down state_fresh) = False \<and>
   items (snd (startup env_down state_fresh)) = None"
proof -
  have x: "fst (get_db_connection env_down state_fresh) = Inl exhausted"
    by (simp add: get_db_connection_def get_db_connection_loop.simps env_down_def state_fresh_def)
  from startup_never_exits [of env_down state_fresh exhausted] x
  show ?thesis by (simp add: state_fresh_def)
qed

text \<open>
  C1 as stated fails: with a database that refuses all 5 attempts, \<open>init_db\<close> returns
  \<open>False\<close> and the process does not exit.
\<close>

theorem startup_unreachable_database_counterexample:
  "attempts (snd (startup env_down state_fresh)) = 5 \<and>
   fst (init_db env_down state_fresh) = False \<and>
   fst (startup env_down state_fresh) \<noteq> Exited"
  by (simp add: startup_def init_db_def init_db_try_def get_db_connection_def
        get_db_connection_loop.simps env_down_def state_fresh_def)

text \<open>
  C2. A \<open>POST /items\<close> whose content type is JSON and whose body does not parse: the
  \<open>BadRequest\<close> raised by \<open>get_json\<close> is caught by the handler's own \<open>except\<close> clause,
  and the response has status 500, in every world.
\<close>

theorem create_item_malformed_body:
  "create_item e malformed_request s =
     (error_response ''400 Bad Request: Failed to decode JSON object'' 500, s)"
  by (simp add: create_item_def create_item_try_def catch500_def get_json_def
        malformed_request_def str_exn_def)

text \<open>
  C5. When the connection is acquired and the table exists, \<open>get_items\<close> answers 200
  with the items of rows that are sorted by ascending id and are, as a multiset, the rows
  of the table, in whatever order the table holds them.
\<close>

theorem get_items_sorted_by_id:
  assumes "get_db_connection e s = (Inr c, s1)" and "items s = Some rs"
  shows "\<exists>rows. fst (get_items e s) = (JArr (map item_json rows), 200) \<and>
           sorted (map row_id rows) \<and> mset rows = mset rs"
proof -
  have "items s1 = Some rs" using assms get_db_connection_frame by fastforce
  then have "fst (get_items e s) = (JArr (map item_json (sort_key row_id rs)), 200)"
    using assms(1) by (simp add: get_items_def get_items_try_def execute_select_all catch500_def jsonify_def)
  moreover have "sorted (map row_id (sort_key row_id rs))" by (rule sorted_sort_key)
  moreover have "mset (sort_key row_id rs) = mset rs" by simp
  ultimately show ?thesis by blast
qed

theorem get_items_sorted_by_id_witness:
  "fst (get_items env_up state_three) =
     (JArr [JObj [(''id'', JNum 1), (''name'', JStr ''a''), (''description'', JNull)],
            JObj [(''id'', JNum 2), (''name'', JStr ''b''), (''description'', JStr [])],
            JObj [(''id'', JNum 3), (''name'', JStr ''c''), (''description'', JStr ''third'')]], 200) \<and>
   (\<exists>rows. fst (get_items env_up state_three) = (JArr (map item_json rows), 200) \<and>
           sorted (map row_id rows))"
proof -
  have c: "get_db_connection env_up state_three =
      (Inr 0, state_three\<lparr>attempts := 1, trace := [Connect], open_conns := {0}\<rparr>)"
    by (simp add: handler_defs sample_defs)
  have i: "items state_three = Some [\<lparr>row_id = 3, row_name = ''c'', row_description = Some ''third''\<rparr>,
                    \<lparr>row_id = 1, row_name = ''a'', row_description = None\<rparr>,
                    \<lparr>row_id = 2, row_name = ''b'', row_description = Some []\<rparr>]"
    by (simp add: state_three_def)
  have v: "fst (get_items env_up state_three) =
     (JArr [JObj [(''id'', JNum 1), (''name'', JStr ''a''), (''description'', JNull)],
            JObj [(''id'', JNum 2), (''name'', JStr ''b''), (''description'', JStr [])],
            JObj [(''id'', JNum 3), (''name'', JStr ''c''), (''description'', JStr ''third'')]], 200)"
    by (simp add: get_items_def get_items_try_def handler_defs pg_defs sample_defs)
  from get_items_sorted_by_id [OF c i] v show ?thesis by blast
qed

text \<open>
  C8. \<open>GET /items\<close> against a reachable database without the table: the statement
  raises, the handler answers 500, and the connection it acquired is still open, with no
  \<open>close\<close> among the effects.
\<close>

theorem get_items_leaks_connection:
  "snd (fst (get_items env_up state_fresh)) = 500 \<and>
   open_conns (snd (get_items env_up state_fresh)) = {0} \<and>
   trace (snd (get_items env_up state_fresh)) =
     [Connect, Execute ''SELECT * FROM items ORDER BY id'' []]"
  by (simp add: get_items_def get_items_try_def handler_defs pg_defs sample_defs)

text \<open>
  C9. \<open>index\<close> leaves the state as it is (no connection attempt, no statement),
  answers 200 with the fixed object whose \<open>database\<close> member is \<open>connected\<close>, and its
  answer does not depend on the outcomes of connection attempts nor on the state.
\<close>

theorem index_fixed_metadata:
  "snd (index e s) = s \<and>
   fst (index e s) =
     (JObj [(''service'', JStr ''Backend API''), (''hostname'', JStr (hostname e)),
            (''status'', JStr ''running''), (''database'', JStr ''connected'')], 200) \<and>
   fst (index (e\<lparr>connect_outcome := f\<rparr>) s') = fst (index e s)"
  by (simp add: index_def jsonify_def)


text \<open>
  C10. On an existing item, with the connection acquired, \<open>PUT /items/{id}\<close> with the
  body \<open>{"name": ""}\<close> is answered 200 with the item under the empty name, and the table
  then holds the empty name for that id; \<open>POST /items\<close> with the same body is answered
  400 and changes nothing.
\<close>

theorem update_item_accepts_empty_name:
  assumes "get_db_connection e s = (Inr c, s1)" and "items s = Some rs"
    and "r \<in> set rs" and "row_id r = int i"
  shows "(\<exists>r0\<in>set rs. row_id r0 = int i \<and>
            fst (update_item e i (json_request (JObj [(''name'', JStr [])])) s)
              = (item_json (r0\<lparr>row_name := []\<rparr>), 200)) \<and>
         items (snd (update_item e i (json_request (JObj [(''name'', JStr [])])) s))
           = Some (map (\<lambda>r. if row_id r = int i then r\<lparr>row_name := []\<rparr> else r) rs) \<and>
         create_item e (json_request (JObj [(''name'', JStr [])])) s
           = (error_response ''Item name is required'' 400, s)"
proof -
  let ?req = "json_request (JObj [(''name'', JStr [])])"
  let ?hits = "filter (\<lambda>r. row_id r = int i) rs"
  have i1: "items s1 = Some rs" using assms(1,2) get_db_connection_frame by fastforce
  from assms(3,4) have "r \<in> set ?hits" by simp
  then obtain r0 rest where h: "?hits = r0 # rest" by (cases ?hits) auto
  then have "r0 \<in> set ?hits" by simp
  then have r0: "r0 \<in> set rs" "row_id r0 = int i" by simp_all
  have u: "update_item e i ?req s =
      ((item_json (r0\<lparr>row_name := []\<rparr>), 200),
       close c (commit (s1\<lparr>trace := trace s1 @ [Execute ''UPDATE items SET name = %s WHERE id = %s RETURNING *'' [JStr [], JNum (int i)]],
        items := Some (map (\<lambda>r. if row_id r = int i then r\<lparr>row_name := []\<rparr> else r) rs)\<rparr>)))"
    using assms(1) execute_update_empty_name [OF i1, of e "int i"] h
    by (simp add: update_item_def update_item_try_def catch500_def get_json_def json_request_def
          py_get_obj member_def updates_def fetchone_def jsonify_def)
  have cr: "create_item e ?req s = (error_response ''Item name is required'' 400, s)"
    by (simp add: create_item_def create_item_try_def catch500_def get_json_def json_request_def
          py_get_obj member_def)
  from u r0 cr show ?thesis by auto
qed

theorem update_item_accepts_empty_name_witness:
  "update_item env_up 2 (json_request (JObj [(''name'', JStr [])])) state_three =
     ((JObj [(''id'', JNum 2), (''name'', JStr []), (''description'', JStr [])], 200),
      state_three\<lparr>attempts := 1,
        trace := [Connect,
                  Execute ''UPDATE items SET name = %s WHERE id = %s RETURNING *'' [JStr [], JNum 2],
                  Commit, Close 0],
        items := Some [\<lparr>row_id = 3, row_name = ''c'', row_description = Some ''third''\<rparr>,
                    \<lparr>row_id = 1, row_name = ''a'', row_description = None\<rparr>,
                    \<lparr>row_id = 2, row_name = [], row_description = Some []\<rparr>]\<rparr>) \<and>
   create_item env_up (json_request (JObj [(''name'', JStr [])])) state_three
           = (error_response ''Item name is required'' 400, state_three)"
proof -
  have c: "get_db_connection env_up state_three =
      (Inr 0, state_three\<lparr>attempts := 1, trace := [Connect], open_conns := {0}\<rparr>)"
    by (simp add: handler_defs sample_defs)
  have i: "items state_three = Some [\<lparr>row_id = 3, row_name = ''c'', row_description = Some ''third''\<rparr>,
                    \<lparr>row_id = 1, row_name = ''a'', row_description = None\<rparr>,
                    \<lparr>row_id = 2, row_name = ''b'', row_description = Some []\<rparr>]"
    by (simp add: state_three_def)
  have m: "\<lparr>row_id = 2, row_name = ''b'', row_description = Some []\<rparr>
      \<in> set [\<lparr>row_id = 3, row_name = ''c'', row_description = Some ''third''\<rparr>,
                    \<lparr>row_id = 1, row_name = ''a'', row_description = None\<rparr>,
                    \<lparr>row_id = 2, row_name = ''b'', row_description = Some []\<rparr>]"
    by simp
  have d: "row_id \<lparr>row_id = 2, row_name = ''b'', row_description = Some []\<rparr> = int 2" by simp
  have v: "update_item env_up 2 (json_request (JObj [(''name'', JStr [])])) state_three =
     ((JObj [(''id'', JNum 2), (''name'', JStr []), (''description'', JStr [])], 200),
      state_three\<lparr>attempts := 1,
        trace := [Connect,
                  Execute ''UPDATE items SET name = %s WHERE id = %s RETURNING *'' [JStr [], JNum 2],
                  Commit, Close 0],
        items := Some [\<lparr>row_id = 3, row_name = ''c'', row_description = Some ''third''\<rparr>,
                    \<lparr>row_id = 1, row_name = ''a'', row_description = None\<rparr>,
                    \<lparr>row_id = 2, row_name = [], row_description = Some []\<rparr>]\<rparr>)"
    by (simp add: update_item_def update_item_try_def handler_defs pg_defs sample_defs)
  from update_item_accepts_empty_name [OF c i m d] v show ?thesis by blast
qed

text \<open>
  C6. With the connection acquired for both requests, the table present, its ids handed
  out by the sequence and the sequence not used up: \<open>POST /items\<close> with a name (not
  empty, at most 255 characters, \<open>"foo"\<close> for one) and no description is answered 201
  with that name, the empty description and a positive id; \<open>GET /items/{id}\<close> with that
  id, right after, is answered 200 with the same record.
\<close>

theorem create_item_get_item_round_trip:
  assumes "get_db_connection e s = (Inr c, s1)"
    and "items s = Some rs" and "ids_assigned s" and "items_seq s < 2147483647"
    and "nm \<noteq> []" and "length nm \<le> 255" and "CHR 0x00 \<notin> set nm"
    and "create_item e (json_request (JObj [(''name'', JStr nm)])) s = (resp, s')"
    and "get_db_connection e s' = (Inr c', s1')"
  shows "\<exists>i. 0 < i \<and>
           resp = (JObj [(''id'', JNum (int i)), (''name'', JStr nm), (''description'', JStr [])], 201) \<and>
           fst (get_item e i s') = (fst resp, 200)"
proof -
  let ?k = "items_seq s + 1"
  let ?r = "\<lparr>row_id = ?k, row_name = nm, row_description = Some []\<rparr>"
  have i1: "items s1 = Some rs" "items_seq s1 = items_seq s"
    using assms(1,2) get_db_connection_frame by fastforce+
  then have a1: "ids_assigned s1" using assms(2,3) by (simp add: ids_assigned_def)
  have fresh: "0 \<le> items_seq s" "filter (\<lambda>r. row_id r = ?k) rs = []"
    using ids_assigned_fresh [OF assms(3,2)] by simp_all
  have x: "execute e insert_sql [JStr nm, JStr []] s1 =
     (Inr [?r],
      s1\<lparr>trace := trace s1 @ [Execute insert_sql [JStr nm, JStr []]],
        items_seq := ?k, items := Some (rs @ [?r])\<rparr>)"
    using execute_insert [OF i1(1) a1 _ assms(6,7), of e] assms(4) i1(2) by simp
  have cr: "create_item e (json_request (JObj [(''name'', JStr nm)])) s =
      ((item_json ?r, 201),
       close c (commit (s1\<lparr>trace := trace s1 @ [Execute insert_sql [JStr nm, JStr []]],
        items_seq := ?k, items := Some (rs @ [?r])\<rparr>)))"
    using assms(1,5) x
    by (simp add: create_item_def create_item_try_def catch500_def get_json_def json_request_def
          py_get_def py_get_default_def fetchone_def)
  with assms(8) have resp: "resp = (item_json ?r, 201)" and s': "items s' = Some (rs @ [?r])"
    by auto
  have i2: "items s1' = Some (rs @ [?r])"
    using assms(9) s' get_db_connection_frame by fastforce
  have k: "int (nat ?k) = ?k" "0 < nat ?k" using fresh(1) by simp_all
  have "execute e ''SELECT * FROM items WHERE id = %s'' [JNum ?k] s1' =
     (Inr [?r], s1'\<lparr>trace := trace s1' @ [Execute ''SELECT * FROM items WHERE id = %s'' [JNum ?k]]\<rparr>)"
    using execute_select_by_id [OF i2, of e ?k] fresh(2) by simp
  then have g: "fst (get_item e (nat ?k) s') = (item_json ?r, 200)"
    using assms(9) k(1)
    by (simp add: get_item_def get_item_try_def catch500_def fetchone_def jsonify_def)
  have "resp = (JObj [(''id'', JNum (int (nat ?k))), (''name'', JStr nm), (''description'', JStr [])], 201)"
    using resp k(1) by (simp add: item_json_def)
  with g resp k(2) show ?thesis by (intro exI [of _ "nat ?k"]) simp
qed

theorem create_item_get_item_round_trip_witness:
  "create_item env_up (json_request (JObj [(''name'', JStr ''foo'')])) state_three =
     ((JObj [(''id'', JNum 4), (''name'', JStr ''foo''), (''description'', JStr [])], 201),
      state_three\<lparr>attempts := 1,
        trace := [Connect, Execute insert_sql [JStr ''foo'', JStr []], Commit, Close 0],
        items_seq := 4,
        items := Some [\<lparr>row_id = 3, row_name = ''c'', row_description = Some ''third''\<rparr>,
                    \<lparr>row_id = 1, row_name = ''a'', row_description = None\<rparr>,
                    \<lparr>row_id = 2, row_name = ''b'', row_description = Some []\<rparr>,
                    \<lparr>row_id = 4, row_name = ''foo'', row_description = Some []\<rparr>]\<rparr>) \<and>
   (\<exists>i. 0 < i \<and>
      fst (get_item env_up i (snd (create_item env_up (json_request (JObj [(''name'', JStr ''foo'')])) state_three)))
        = (JObj [(''id'', JNum 4), (''name'', JStr ''foo''), (''description'', JStr [])], 200))"
proof -
  let ?s' = "state_three\<lparr>attempts := 1,
        trace := [Connect, Execute insert_sql [JStr ''foo'', JStr []], Commit, Close 0],
        items_seq := 4,
        items := Some [\<lparr>row_id = 3, row_name = ''c'', row_description = Some ''third''\<rparr>,
                    \<lparr>row_id = 1, row_name = ''a'', row_description = None\<rparr>,
                    \<lparr>row_id = 2, row_name = ''b'', row_description = Some []\<rparr>,
                    \<lparr>row_id = 4, row_name = ''foo'', row_description = Some []\<rparr>]\<rparr>"
  have c: "get_db_connection env_up state_three =
      (Inr 0, state_three\<lparr>attempts := 1, trace := [Connect], open_conns := {0}\<rparr>)"
    by (simp add: handler_defs sample_defs)
  have i: "items state_three = Some [\<lparr>row_id = 3, row_name = ''c'', row_description = Some ''third''\<rparr>,
                    \<lparr>row_id = 1, row_name = ''a'', row_description = None\<rparr>,
                    \<lparr>row_id = 2, row_name = ''b'', row_description = Some []\<rparr>]"
    by (simp add: state_three_def)
  have a: "ids_assigned state_three" by (simp add: ids_assigned_def state_three_def)
  have q: "items_seq state_three < 2147483647" by (simp add: state_three_def)
  have n: "''foo'' \<noteq> []" "length ''foo'' \<le> 255" "CHR 0x00 \<notin> set ''foo''" by simp_all
  have v: "create_item env_up (json_request (JObj [(''name'', JStr ''foo'')])) state_three =
     ((JObj [(''id'', JNum 4), (''name'', JStr ''foo''), (''description'', JStr [])], 201), ?s')"
    by (simp add: create_item_def create_item_try_def handler_defs pg_defs sample_defs Let_def)
  have c': "get_db_connection env_up ?s' =
      (Inr 1, ?s'\<lparr>attempts := 2, 
         trace := [Connect, Execute insert_sql [JStr ''foo'', JStr []], Commit, Close 0, Connect],
         open_conns := {1}\<rparr>)"
    by (simp add: handler_defs sample_defs)
  let ?body = "JObj [(''id'', JNum 4), (''name'', JStr ''foo''), (''description'', JStr [])]"
  have "\<exists>i. 0 < i \<and>
           (?body, 201) = (JObj [(''id'', JNum (int i)), (''name'', JStr ''foo''), (''description'', JStr [])], 201::nat) \<and>
           fst (get_item env_up i ?s') = (fst (?body, 201::nat), 200)"
    by (rule create_item_get_item_round_trip [OF c i a q n v c'])
  then obtain k where k: "0 < k" "fst (get_item env_up k ?s') = (fst (?body, 201::nat), 200)"
    by blast
  have "\<exists>i. 0 < i \<and> fst (get_item env_up i ?s') = (?body, 200)"
    using k by (intro exI [of _ k]) simp
  then show ?thesis unfolding v by simp
qed

text \<open>
  C4. With the connection acquired and at least one of \<open>name\<close>, \<open>description\<close>
  supplied, \<open>update_item\<close> sends exactly one statement: its text is one assignment clause
  for each supplied field, name before description, followed by the id predicate; the
  supplied values and the id are its parameters. Any other request (and id) with the same
  fields supplied sends the same text.
\<close>

theorem update_item_statement_text:
  assumes "get_db_connection e s = (Inr c, s1)"
    and "supplied kvs ''name'' \<or> supplied kvs ''description''"
  shows "executed (trace (snd (update_item e i (json_request (JObj kvs)) s))) =
           executed (trace s) @
           [(''UPDATE items SET ''
               @ (if supplied kvs ''name'' then ''name = %s'' else [])
               @ (if supplied kvs ''name'' \<and> supplied kvs ''description'' then '', '' else [])
               @ (if supplied kvs ''description'' then ''description = %s'' else [])
               @ '' WHERE id = %s RETURNING *'',
             (if supplied kvs ''name'' then [member kvs ''name''] else [])
               @ (if supplied kvs ''description'' then [member kvs ''description''] else [])
               @ [JNum (int i)])] \<and>
         (\<forall>kvs' i'. supplied kvs' ''name'' = supplied kvs ''name'' \<and>
                  supplied kvs' ''description'' = supplied kvs ''description'' \<longrightarrow>
            map fst (executed (trace (snd (update_item e i' (json_request (JObj kvs')) s)))) =
            map fst (executed (trace (snd (update_item e i (json_request (JObj kvs)) s)))))"
proof -
  have q: "query (updates (member k ''name'') (member k ''description'')) =
      ''UPDATE items SET ''
               @ (if supplied k ''name'' then ''name = %s'' else [])
               @ (if supplied k ''name'' \<and> supplied k ''description'' then '', '' else [])
               @ (if supplied k ''description'' then ''description = %s'' else [])
               @ '' WHERE id = %s RETURNING *''" for k
    by (simp add: supplied_member query_def updates_def join_def)
  have v: "values_of (member k ''name'') (member k ''description'') =
      (if supplied k ''name'' then [member k ''name''] else [])
               @ (if supplied k ''description'' then [member k ''description''] else [])" for k
    by (simp add: supplied_member values_of_def)
  have one: "executed (trace (snd (update_item e j (json_request (JObj k)) s))) =
           executed (trace s) @
           [(''UPDATE items SET ''
               @ (if supplied k ''name'' then ''name = %s'' else [])
               @ (if supplied k ''name'' \<and> supplied k ''description'' then '', '' else [])
               @ (if supplied k ''description'' then ''description = %s'' else [])
               @ '' WHERE id = %s RETURNING *'',
             (if supplied k ''name'' then [member k ''name''] else [])
               @ (if supplied k ''description'' then [member k ''description''] else [])
               @ [JNum (int j)])]"
    if "supplied k ''name'' \<or> supplied k ''description''" for k j
    using update_item_executed [OF assms(1) that, of j] unfolding q v by simp
  show ?thesis
  proof (intro conjI allI impI)
    show "executed (trace (snd (update_item e i (json_request (JObj kvs)) s))) =
           executed (trace s) @
           [(''UPDATE items SET ''
               @ (if supplied kvs ''name'' then ''name = %s'' else [])
               @ (if supplied kvs ''name'' \<and> supplied kvs ''description'' then '', '' else [])
               @ (if supplied kvs ''description'' then ''description = %s'' else [])
               @ '' WHERE id = %s RETURNING *'',
             (if supplied kvs ''name'' then [member kvs ''name''] else [])
               @ (if supplied kvs ''description'' then [member kvs ''description''] else [])
               @ [JNum (int i)])]"
      by (rule one [OF assms(2)])
  next
    fix kvs' i'
    assume same: "supplied kvs' ''name'' = supplied kvs ''name'' \<and>
                  supplied kvs' ''description'' = supplied kvs ''description''"
    then have "supplied kvs' ''name'' \<or> supplied kvs' ''description''" using assms(2) by simp
    from one [OF this, of i'] one [OF assms(2), of i] same
    show "map fst (executed (trace (snd (update_item e i' (json_request (JObj kvs')) s)))) =
          map fst (executed (trace (snd (update_item e i (json_request (JObj kvs)) s))))"
      by simp
  qed
qed

theorem update_item_statement_text_witness:
  "executed (trace (snd (update_item env_up 2
      (json_request (JObj [(''description'', JStr ''x''), (''name'', JStr ''y'')])) state_three))) =
     [(''UPDATE items SET name = %s, description = %s WHERE id = %s RETURNING *'',
       [JStr ''y'', JStr ''x'', JNum 2])] \<and>
   map fst (executed (trace (snd (update_item env_up 3
      (json_request (JObj [(''name'', JStr ''Robert); DROP TABLE items;--''), (''description'', JStr [])])) state_three)))) =
     [''UPDATE items SET name = %s, description = %s WHERE id = %s RETURNING *'']"
proof -
  let ?kvs = "[(''description'', JStr ''x''), (''name'', JStr ''y'')]"
  let ?kvs' = "[(''name'', JStr ''Robert); DROP TABLE items;--''), (''description'', JStr [])]"
  have c: "get_db_connection env_up state_three =
      (Inr 0, state_three\<lparr>attempts := 1, trace := [Connect], open_conns := {0}\<rparr>)"
    by (simp add: handler_defs sample_defs)
  have s: "supplied ?kvs ''name''" "supplied ?kvs ''description''"
      "supplied ?kvs' ''name''" "supplied ?kvs' ''description''"
    by (simp_all add: supplied_def)
  then have h: "supplied ?kvs ''name'' \<or> supplied ?kvs ''description''" by simp
  have m: "member ?kvs ''name'' = JStr ''y''" "member ?kvs ''description'' = JStr ''x''"
    by (simp_all add: member_def)
  have t: "executed (trace state_three) = []" by (simp add: state_three_def)
  note w = update_item_statement_text [OF c h, of 2]
  from w have a: "executed (trace (snd (update_item env_up 2 (json_request (JObj ?kvs)) state_three))) =
     [(''UPDATE items SET name = %s, description = %s WHERE id = %s RETURNING *'',
       [JStr ''y'', JStr ''x'', JNum 2])]"
    using s m t by simp
  from w s have "map fst (executed (trace (snd (update_item env_up 3 (json_request (JObj ?kvs')) state_three)))) =
            map fst (executed (trace (snd (update_item env_up 2 (json_request (JObj ?kvs)) state_three))))"
    by blast
  with a show ?thesis by simp
qed

end
